theory Spec2Isabelle
  imports Main "HOL-Library.Word"
begin

section \<open>JavaScript values\<close>

text \<open>
  A thrown value. The services only log it and pass it on, so its content is a message.
\<close>

datatype js_error = JsError string

text \<open>
  A string-valued property that may be \<open>undefined\<close> (\<open>None\<close>). JavaScript treats
  \<open>undefined\<close> and the empty string as falsy, everything else as truthy.
\<close>

definition truthy :: "string option \<Rightarrow> bool" where
  "truthy v = (case v of None \<Rightarrow> False | Some s \<Rightarrow> s \<noteq> [])"

text \<open>\<open>v || d\<close> for a string-valued \<open>v\<close> and a string default \<open>d\<close>.\<close>

definition or_else :: "string option \<Rightarrow> string \<Rightarrow> string" where
  "or_else v d = (case v of None \<Rightarrow> d | Some s \<Rightarrow> if s \<noteq> [] then s else d)"

text \<open>\<open>xs?.[0]\<close>: the first element of an array that may be \<open>undefined\<close> or empty.\<close>

definition first_of :: "'a list option \<Rightarrow> 'a option" where
  "first_of xs = (case xs of None \<Rightarrow> None | Some [] \<Rightarrow> None | Some (x # _) \<Rightarrow> Some x)"

section \<open>The provider client (\<open>@google/genai\<close>), an external collaborator\<close>

subsection \<open>Requests\<close>

datatype req_part = InlineData (inline_mimeType: string) (inline_data: string) | Text string

datatype contents = Content "req_part list" | ContentList "req_part list list"

datatype modality = AUDIO | TEXT | IMAGE

record generate_config =
  responseModalities :: "modality list"
  voiceName :: string

record generate_request =
  model :: string
  contents :: contents
  config :: "generate_config option"

datatype role = User | Model

text \<open>One entry of the wire-level history: \<open>{ role, parts: [{ text }] }\<close>.\<close>

record history_entry =
  h_role :: role
  h_parts :: "string option list"

record chat_params =
  chat_model :: string
  chat_history :: "history_entry list"
  systemInstruction :: string

subsection \<open>Responses\<close>

record resp_inline_data =
  inl_mimeType :: "string option"
  inl_data :: "string option"

record resp_part =
  part_text :: "string option"
  part_inlineData :: "resp_inline_data option"

record resp_content =
  parts :: "resp_part list option"

record candidate =
  content :: "resp_content option"

record generate_response =
  candidates :: "candidate list option"
  resp_text :: "string option"

subsection \<open>The client and what a run does to the outside world\<close>

text \<open>
  The module-level singleton \<open>ai\<close>. Each method either returns or throws; what it answers
  is not decided by this repository, so it is a parameter. A request that never settles
  is not represented: the code sets no timeout, and every statement below is about calls
  that come back. \<open>'c\<close> is the session object that \<open>ai.chats.create\<close> returns.
\<close>

record 'c ai_client =
  generateContent :: "generate_request \<Rightarrow> js_error + generate_response"
  chats_create :: "chat_params \<Rightarrow> js_error + 'c"
  sendMessage :: "'c \<Rightarrow> string \<Rightarrow> js_error + generate_response"

text \<open>
  The observable effects of a service call, in order: the calls made on the client and
  the lines written to the console.
\<close>

datatype 'c effect =
    GenerateContent generate_request
  | ChatsCreate chat_params
  | SendMessage 'c string
  | NewAudioContext nat
  | ConsoleWarn string
  | ConsoleError string js_error

subsection \<open>The audio platform and utils/audioUtils\<close>

text \<open>
  \<open>generateSpeech\<close> builds an \<open>AudioContext\<close> (a browser object, \<open>'a\<close>) from its
  \<open>sampleRate\<close> option and hands the payload to \<open>decodeBase64\<close> and \<open>decodeAudioData\<close>.
  The two helpers are imported from utils/audioUtils, whose text is not part of the
  sources at hand, so they are parameters here, each free to throw. \<open>'b\<close> is the
  \<open>AudioBuffer\<close> that \<open>decodeAudioData\<close> resolves to.
\<close>

record ('a, 'b) audio_env =
  newAudioContext :: "nat \<Rightarrow> js_error + 'a"
  decodeBase64 :: "string \<Rightarrow> js_error + 8 word list"
  decodeAudioData :: "8 word list \<Rightarrow> 'a \<Rightarrow> js_error + 'b"

text \<open>The calls made on the client, without the console lines and the audio set-up.\<close>

fun is_client_call :: "'c effect \<Rightarrow> bool" where
  "is_client_call (GenerateContent _) = True"
| "is_client_call (ChatsCreate _) = True"
| "is_client_call (SendMessage _ _) = True"
| "is_client_call _ = False"

definition client_calls :: "'c effect list \<Rightarrow> 'c effect list" where
  "client_calls effects = filter is_client_call effects"

section \<open>services/geminiService.ts\<close>

subsection \<open>generateStoryFromImage\<close>

definition is_word_char :: "char \<Rightarrow> bool" where
  "is_word_char c = (let n = of_char c :: nat in
     (65 \<le> n \<and> n \<le> 90) \<or> (97 \<le> n \<and> n \<le> 122) \<or> (48 \<le> n \<and> n \<le> 57) \<or> n = 95)"

text \<open>\<open>strip_prefix p s\<close>: the rest of \<open>s\<close> after the literal \<open>p\<close>, if \<open>s\<close> starts with it.\<close>

fun strip_prefix :: "string \<Rightarrow> string \<Rightarrow> string option" where
  "strip_prefix [] s = Some s"
| "strip_prefix (p # ps) [] = None"
| "strip_prefix (p # ps) (c # cs) = (if p = c then strip_prefix ps cs else None)"

text \<open>
  \<open>base64Image.replace(/^data:image\/\w+;base64,/, "")\<close>. The pattern is anchored at the
  start and has no flags. \<open>\w+\<close> is greedy, and the character after it must be \<open>;\<close>,
  which is not a word character, so the only way to match is with the whole leading run
  of word characters.
\<close>

definition replace_header :: "string \<Rightarrow> string" where
  "replace_header base64Image =
     (case strip_prefix ''data:image/'' base64Image of
        None \<Rightarrow> base64Image
      | Some r \<Rightarrow>
          if takeWhile is_word_char r = [] then base64Image
          else (case strip_prefix '';base64,'' (dropWhile is_word_char r) of
                  None \<Rightarrow> base64Image
                | Some payload \<Rightarrow> payload))"

definition story_prompt :: string where
  "story_prompt = ''Analyze the mood, lighting, and details of this image. Then, act as a master storyteller. Write a compelling, atmospheric opening paragraph (approx 150 words) for a story set in this scene. Focus on sensory details and establishing the tone.''"

definition story_fallback :: string where
  "story_fallback = ''I couldn'' @ [CHR 0x27] @ ''t generate a story at this time.''"

definition story_request :: "string \<Rightarrow> string \<Rightarrow> generate_request" where
  "story_request base64Image mimeType =
     (let cleanBase64 = replace_header base64Image in
      \<lparr> model = ''gemini-3-pro-preview'',
        contents = Content [InlineData mimeType cleanBase64, Text story_prompt],
        config = None \<rparr>)"

text \<open>The \<open>catch\<close> block logs and rethrows.\<close>

definition generateStoryFromImage ::
  "'c ai_client \<Rightarrow> string \<Rightarrow> string \<Rightarrow> 'c effect list \<times> (js_error + string)" where
  "generateStoryFromImage ai base64Image mimeType =
     (let request = story_request base64Image mimeType in
      case generateContent ai request of
        Inl error \<Rightarrow>
          ([GenerateContent request, ConsoleError ''Error generating story:'' error], Inl error)
      | Inr response \<Rightarrow>
          ([GenerateContent request], Inr (or_else (resp_text response) story_fallback)))"

subsection \<open>generateSpeech\<close>

definition speech_request :: "string \<Rightarrow> generate_request" where
  "speech_request text =
     \<lparr> model = ''gemini-2.5-flash-preview-tts'',
       contents = ContentList [[Text text]],
       config = Some \<lparr> responseModalities = [AUDIO], voiceName = ''Puck'' \<rparr> \<rparr>"

text \<open>\<open>response.candidates?.[0]?.content?.parts?.[0]?.inlineData?.data\<close>\<close>

definition base64Audio_of :: "generate_response \<Rightarrow> string option" where
  "base64Audio_of response =
     (case first_of (candidates response) of
        None \<Rightarrow> None
      | Some c \<Rightarrow>
          (case content c of
             None \<Rightarrow> None
           | Some ct \<Rightarrow>
               (case first_of (parts ct) of
                  None \<Rightarrow> None
                | Some p \<Rightarrow>
                    (case part_inlineData p of
                       None \<Rightarrow> None
                     | Some d \<Rightarrow> inl_data d))))"

text \<open>
  The steps after the \<open>null\<close> check: construct the context with \<open>sampleRate: 24000\<close>,
  decode the base64 text to bytes, decode the bytes to a buffer. All of it is inside the
  \<open>try\<close>, whose \<open>catch\<close> block logs and rethrows.
\<close>

definition decode_audio ::
  "('a, 'b) audio_env \<Rightarrow> string \<Rightarrow> 'c effect list \<times> (js_error + 'b option)" where
  "decode_audio env base64Audio =
     (case newAudioContext env 24000 of
        Inl error \<Rightarrow> ([NewAudioContext 24000], Inl error)
      | Inr audioContext \<Rightarrow>
          (case decodeBase64 env base64Audio of
             Inl error \<Rightarrow> ([NewAudioContext 24000], Inl error)
           | Inr audioBytes \<Rightarrow>
               (case decodeAudioData env audioBytes audioContext of
                  Inl error \<Rightarrow> ([NewAudioContext 24000], Inl error)
                | Inr buffer \<Rightarrow> ([NewAudioContext 24000], Inr (Some buffer)))))"

text \<open>
  \<open>if (!base64Audio)\<close> holds when the chain gave \<open>undefined\<close> and when it gave the empty
  string; both branches warn and return \<open>null\<close>.
\<close>

definition no_audio_data :: "generate_request \<Rightarrow> 'c effect list \<times> (js_error + 'b option)" where
  "no_audio_data request =
     ([GenerateContent request, ConsoleWarn ''No audio data received''], Inr None)"

definition generateSpeech ::
  "'c ai_client \<Rightarrow> ('a, 'b) audio_env \<Rightarrow> string
     \<Rightarrow> 'c effect list \<times> (js_error + 'b option)" where
  "generateSpeech ai env text =
     (let request = speech_request text in
      case generateContent ai request of
        Inl error \<Rightarrow>
          ([GenerateContent request, ConsoleError ''Error generating speech:'' error], Inl error)
      | Inr response \<Rightarrow>
          (case base64Audio_of response of
             None \<Rightarrow> no_audio_data request
           | Some base64Audio \<Rightarrow>
               if base64Audio = [] then no_audio_data request
               else
                 (case decode_audio env base64Audio of
                    (effects, Inl error) \<Rightarrow>
                      (GenerateContent request # effects
                         @ [ConsoleError ''Error generating speech:'' error], Inl error)
                  | (effects, Inr buffer) \<Rightarrow>
                      (GenerateContent request # effects, Inr buffer))))"

subsection \<open>sendChatMessage\<close>

definition chat_persona :: string where
  "chat_persona = ''You are a helpful and creative writing assistant (Co-author). You help the user develop their story, offering ideas, answering questions about the plot, characters, or the world generated from the image. Keep answers concise but inspiring.''"

definition chat_apology :: string where
  "chat_apology = ''I'' @ [CHR 0x27] @ ''m having trouble connecting to the muse right now.''"

text \<open>The optional third argument: absent, \<open>null\<close>, or \<open>{ base64, mimeType }\<close>.\<close>

datatype image_context = Absent | Null | ImageContext string string

text \<open>
  Both client calls sit inside the \<open>try\<close>; the \<open>catch\<close> block logs and returns the
  apology. The result is \<open>result.text\<close>, which the client may leave \<open>undefined\<close>.
\<close>

definition chat_request :: "history_entry list \<Rightarrow> chat_params" where
  "chat_request history =
     \<lparr> chat_model = ''gemini-3-pro-preview'',
       chat_history = history,
       systemInstruction = chat_persona \<rparr>"

definition sendChatMessage ::
  "'c ai_client \<Rightarrow> history_entry list \<Rightarrow> string \<Rightarrow> image_context
     \<Rightarrow> 'c effect list \<times> (js_error + string option)" where
  "sendChatMessage ai history newMessage imageContext =
     (let params = chat_request history in
      case chats_create ai params of
        Inl error \<Rightarrow>
          ([ChatsCreate params, ConsoleError ''Chat error:'' error], Inr (Some chat_apology))
      | Inr chat \<Rightarrow>
          (let messageToSend = newMessage in
           case sendMessage ai chat messageToSend of
             Inl error \<Rightarrow>
               ([ChatsCreate params, SendMessage chat messageToSend,
                 ConsoleError ''Chat error:'' error], Inr (Some chat_apology))
           | Inr result \<Rightarrow>
               ([ChatsCreate params, SendMessage chat messageToSend],
                Inr (resp_text result))))"

section \<open>App.tsx\<close>

subsection \<open>Session state\<close>

text \<open>
  The \<open>useState\<close> cells and the two refs of \<open>App\<close>. \<open>image\<close> and \<open>mimeType\<close> carry a
  prefix because the names are taken.
\<close>

record ('a, 'b) app_state =
  app_image :: "string option"
  app_mimeType :: string
  story :: string
  isGenerating :: bool
  audioBuffer :: "'b option"
  isPlaying :: bool
  audioContextRef :: "'a option"
  sourceNodeRef :: "'b option"

text \<open>The state after mount; the effect has filled \<open>audioContextRef\<close>.\<close>

definition initial_app :: "'a \<Rightarrow> ('a, 'b) app_state" where
  "initial_app ctx =
     \<lparr> app_image = None, app_mimeType = [], story = [], isGenerating = False,
       audioBuffer = None, isPlaying = False,
       audioContextRef = Some ctx, sourceNodeRef = None \<rparr>"

definition sorry_story :: string where
  "sorry_story = ''Sorry, I was unable to read the stars for this image. Please try again.''"

subsection \<open>Playback\<close>

definition playBuffer :: "'b \<Rightarrow> ('a, 'b) app_state \<Rightarrow> ('a, 'b) app_state" where
  "playBuffer buffer s =
     (case audioContextRef s of
        None \<Rightarrow> s
      | Some ctx \<Rightarrow> s\<lparr> sourceNodeRef := Some buffer, isPlaying := True \<rparr>)"

definition stopAudio :: "('a, 'b) app_state \<Rightarrow> ('a, 'b) app_state" where
  "stopAudio s = s\<lparr> sourceNodeRef := None, isPlaying := False \<rparr>"

text \<open>\<open>source.onended\<close>\<close>

definition onended :: "('a, 'b) app_state \<Rightarrow> ('a, 'b) app_state" where
  "onended s = s\<lparr> isPlaying := False \<rparr>"

definition handleReset :: "('a, 'b) app_state \<Rightarrow> ('a, 'b) app_state" where
  "handleReset s = (stopAudio s)\<lparr> app_image := None, story := [], audioBuffer := None \<rparr>"

subsection \<open>handleImageSelected\<close>

text \<open>
  An \<open>async\<close> handler runs up to its \<open>await\<close>, gives the event loop back, and is resumed
  with the outcome of the awaited call. The two halves are separate functions, so that
  other handlers can run between them; the handler run without interruption is their
  composition.
\<close>

definition handleImageSelected_begin ::
  "string \<Rightarrow> string \<Rightarrow> ('a, 'b) app_state \<Rightarrow> ('a, 'b) app_state" where
  "handleImageSelected_begin base64 ty s =
     s\<lparr> app_image := Some base64, app_mimeType := ty, story := [],
        audioBuffer := None, isGenerating := True \<rparr>"

definition handleImageSelected_resume ::
  "js_error + string \<Rightarrow> ('a, 'b) app_state \<Rightarrow> ('a, 'b) app_state" where
  "handleImageSelected_resume outcome s =
     (case outcome of
        Inr generatedStory \<Rightarrow> s\<lparr> story := generatedStory \<rparr>
      | Inl err \<Rightarrow> s\<lparr> story := sorry_story \<rparr>)
     \<lparr> isGenerating := False \<rparr>"

definition handleImageSelected ::
  "'c ai_client \<Rightarrow> string \<Rightarrow> string \<Rightarrow> ('a, 'b) app_state
     \<Rightarrow> 'c effect list \<times> ('a, 'b) app_state" where
  "handleImageSelected ai base64 ty s =
     (case generateStoryFromImage ai base64 ty of
        (effects, outcome) \<Rightarrow>
          (effects, handleImageSelected_resume outcome (handleImageSelected_begin base64 ty s)))"

subsection \<open>handleReadAloud\<close>

text \<open>
  Before the \<open>await\<close> the handler either finishes (\<open>Returned\<close>) or calls
  \<open>generateSpeech(story)\<close> and waits (\<open>AwaitSpeech\<close>, with the text it passed).
\<close>

datatype 's suspended = Returned 's | AwaitSpeech string

definition handleReadAloud_begin ::
  "('a, 'b) app_state \<Rightarrow> ('a, 'b) app_state suspended" where
  "handleReadAloud_begin s =
     (if isPlaying s then Returned (stopAudio s)
      else if story s = [] then Returned s
      else (case audioBuffer s of
              Some buffer \<Rightarrow> Returned (playBuffer buffer s)
            | None \<Rightarrow> AwaitSpeech (story s)))"

definition handleReadAloud_resume ::
  "js_error + 'b option \<Rightarrow> ('a, 'b) app_state \<Rightarrow> ('a, 'b) app_state" where
  "handleReadAloud_resume outcome s =
     (case outcome of
        Inl e \<Rightarrow> s
      | Inr None \<Rightarrow> s
      | Inr (Some buffer) \<Rightarrow> playBuffer buffer (s\<lparr> audioBuffer := Some buffer \<rparr>))"

definition handleReadAloud ::
  "'c ai_client \<Rightarrow> ('a, 'b) audio_env \<Rightarrow> ('a, 'b) app_state
     \<Rightarrow> 'c effect list \<times> ('a, 'b) app_state" where
  "handleReadAloud ai env s =
     (case handleReadAloud_begin s of
        Returned s' \<Rightarrow> ([], s')
      | AwaitSpeech text \<Rightarrow>
          (case generateSpeech ai env text of
             (effects, Inl e) \<Rightarrow>
               (effects @ [ConsoleError ''Failed to play audio'' e],
                handleReadAloud_resume (Inl e) s)
           | (effects, Inr buffer) \<Rightarrow> (effects, handleReadAloud_resume (Inr buffer) s)))"

subsection \<open>What the render shows\<close>

text \<open>
  The JSX branches on \<open>!image\<close> (upload view or editor) and, in the editor, on
  \<open>isGenerating\<close> (spinner or story draft): three views. Playback is not a view of its
  own; \<open>isPlaying\<close> only switches the label of the read-aloud button.
\<close>

datatype ui_phase = Idle | StoryGenerating | StoryReady

definition phase :: "('a, 'b) app_state \<Rightarrow> ui_phase" where
  "phase s =
     (if \<not> truthy (app_image s) then Idle
      else if isGenerating s then StoryGenerating
      else StoryReady)"

text \<open>The read-aloud button carries \<open>disabled={isGenerating || !story}\<close>, in the editor.\<close>

definition readAloud_enabled :: "('a, 'b) app_state \<Rightarrow> bool" where
  "readAloud_enabled s = (truthy (app_image s) \<and> \<not> (isGenerating s \<or> story s = []))"

section \<open>components/ChatInterface.tsx\<close>

record chat_message =
  msg_id :: string
  msg_role :: role
  msg_text :: "string option"

record chat_state =
  messages :: "chat_message list"
  input :: string
  isLoading :: bool

definition greeting :: string where
  "greeting = ''Hello! I am your co-author. Feel free to ask me questions about the story world or for ideas on how to continue.''"

definition initial_chat :: chat_state where
  "initial_chat =
     \<lparr> messages = [\<lparr> msg_id = ''1'', msg_role = Model, msg_text = Some greeting \<rparr>],
       input = [], isLoading = False \<rparr>"

text \<open>
  \<open>String.prototype.trim\<close> removes white space and line terminators at both ends. Of
  those, the ones a \<open>char\<close> can hold are TAB, LF, VT, FF, CR, SP and NBSP.
\<close>

definition is_white_space :: "char \<Rightarrow> bool" where
  "is_white_space c = (let n = of_char c :: nat in
     n = 9 \<or> n = 10 \<or> n = 11 \<or> n = 12 \<or> n = 13 \<or> n = 32 \<or> n = 160)"

definition trim :: "string \<Rightarrow> string" where
  "trim s = rev (dropWhile is_white_space (rev (dropWhile is_white_space s)))"

text \<open>\<open>Number.prototype.toString\<close> on a non-negative integer such as \<open>Date.now()\<close>.\<close>

fun toString :: "nat \<Rightarrow> string" where
  "toString n =
     (if n < 10 then [char_of (48 + n)]
      else toString (n div 10) @ [char_of (48 + n mod 10)])"

declare toString.simps [simp del]

text \<open>The template literal of \<open>handleSend\<close>; \<open>\n\<close> is a line feed.\<close>

definition grounded :: "string \<Rightarrow> string \<Rightarrow> string" where
  "grounded initialContext inp =
     ''Context: The story so far is: '' @ [CHR 0x22] @ initialContext @ [CHR 0x22]
       @ ''. '' @ [CHR 0x0A, CHR 0x0A] @ '' User Question: '' @ inp"

definition apiHistory_of :: "chat_message list \<Rightarrow> history_entry list" where
  "apiHistory_of ms = map (\<lambda>m. \<lparr> h_role = msg_role m, h_parts = [msg_text m] \<rparr>) ms"

definition finalInput_of :: "chat_message list \<Rightarrow> string option \<Rightarrow> string \<Rightarrow> string" where
  "finalInput_of ms initialContext inp =
     (if length ms = 1 \<and> truthy initialContext
      then (case initialContext of Some c \<Rightarrow> grounded c inp | None \<Rightarrow> inp)
      else inp)"

text \<open>
  \<open>handleSend\<close> up to its \<open>await\<close>: the guard, the user message (its id from the clock),
  and the arguments of \<open>sendChatMessage\<close>, computed from \<open>messages\<close> as rendered, that is
  before the user message is appended.
\<close>

datatype send_step = Ignored | AwaitReply "history_entry list" string

definition handleSend_begin ::
  "string option \<Rightarrow> nat \<Rightarrow> chat_state \<Rightarrow> send_step \<times> chat_state" where
  "handleSend_begin initialContext now s =
     (if trim (input s) = [] \<or> isLoading s then (Ignored, s)
      else
        (let userMsg = \<lparr> msg_id = toString now, msg_role = User, msg_text = Some (input s) \<rparr>
         in (AwaitReply (apiHistory_of (messages s))
                        (finalInput_of (messages s) initialContext (input s)),
             s\<lparr> messages := messages s @ [userMsg], input := [], isLoading := True \<rparr>)))"

text \<open>After the \<open>await\<close>: the reply is appended, or the \<open>catch\<close> swallows; \<open>finally\<close>.\<close>

definition handleSend_resume ::
  "js_error + string option \<Rightarrow> nat \<Rightarrow> chat_state \<Rightarrow> chat_state" where
  "handleSend_resume outcome now s =
     (case outcome of
        Inr responseText \<Rightarrow>
          s\<lparr> messages := messages s
                @ [\<lparr> msg_id = toString (now + 1), msg_role = Model, msg_text = responseText \<rparr>] \<rparr>
      | Inl e \<Rightarrow> s)
     \<lparr> isLoading := False \<rparr>"

definition handleSend ::
  "'c ai_client \<Rightarrow> string option \<Rightarrow> nat \<Rightarrow> nat \<Rightarrow> chat_state
     \<Rightarrow> 'c effect list \<times> chat_state" where
  "handleSend ai initialContext now now' s =
     (case handleSend_begin initialContext now s of
        (Ignored, s') \<Rightarrow> ([], s')
      | (AwaitReply apiHistory finalInput, s') \<Rightarrow>
          (case sendChatMessage ai apiHistory finalInput Absent of
             (effects, outcome) \<Rightarrow> (effects, handleSend_resume outcome now' s')))"

section \<open>Concrete collaborators for the examples\<close>

text \<open>A client whose transport is down: the session object is built, every request fails.\<close>

definition ai_down :: "chat_params ai_client" where
  "ai_down =
     \<lparr> generateContent = (\<lambda>request. Inl (JsError ''Failed to fetch'')),
       chats_create = (\<lambda>params. Inr params),
       sendMessage = (\<lambda>chat message. Inl (JsError ''Failed to fetch'')) \<rparr>"

text \<open>
  A client that answers: a story named after the image data it was sent, speech whose
  payload is the text it was asked to speak, and a fixed chat reply.
\<close>

definition speech_response :: "string \<Rightarrow> generate_response" where
  "speech_response payload =
     \<lparr> candidates = Some [\<lparr> content = Some \<lparr> parts = Some
         [\<lparr> part_text = None,
            part_inlineData = Some \<lparr> inl_mimeType = Some ''audio/L16;codec=pcm;rate=24000'',
                                     inl_data = Some payload \<rparr> \<rparr>] \<rparr> \<rparr>],
       resp_text = None \<rparr>"

fun request_words :: "contents \<Rightarrow> string" where
  "request_words (Content (InlineData m d # ps)) = d"
| "request_words (ContentList ([Text t] # cs)) = t"
| "request_words _ = []"

definition ai_muse :: "chat_params ai_client" where
  "ai_muse =
     \<lparr> generateContent = (\<lambda>request.
         case config request of
           None \<Rightarrow> Inr \<lparr> candidates = None,
                         resp_text = Some (''Story of '' @ request_words (contents request)) \<rparr>
         | Some c \<Rightarrow> Inr (speech_response (request_words (contents request)))),
       chats_create = (\<lambda>params. Inr params),
       sendMessage = (\<lambda>chat message. Inr \<lparr> candidates = None, resp_text = Some ''It is green.'' \<rparr>) \<rparr>"

text \<open>A client whose responses carry no candidate and no text.\<close>

definition ai_silent :: "chat_params ai_client" where
  "ai_silent =
     \<lparr> generateContent = (\<lambda>request. Inr \<lparr> candidates = Some [], resp_text = None \<rparr>),
       chats_create = (\<lambda>params. Inr params),
       sendMessage = (\<lambda>chat message. Inr \<lparr> candidates = Some [], resp_text = None \<rparr>) \<rparr>"

text \<open>
  An audio platform for the examples: the context is its sample rate, the bytes are the
  character codes of the payload, the buffer is the pair of the two.
\<close>

definition env_pcm :: "(nat, nat \<times> 8 word list) audio_env" where
  "env_pcm =
     \<lparr> newAudioContext = (\<lambda>rate. Inr rate),
       decodeBase64 = (\<lambda>s. Inr (map (\<lambda>c. of_nat (of_char c)) s)),
       decodeAudioData = (\<lambda>bytes rate. Inr (rate, bytes)) \<rparr>"

text \<open>
  The specification's "the response carries an inline audio payload", read over the whole
  nested structure rather than along the first-element path the code follows.
\<close>

definition spec_part_has_audio :: "resp_part \<Rightarrow> bool" where
  "spec_part_has_audio p =
     (case part_inlineData p of None \<Rightarrow> False | Some d \<Rightarrow> truthy (inl_data d))"

definition spec_candidate_has_audio :: "candidate \<Rightarrow> bool" where
  "spec_candidate_has_audio c =
     (case content c of
        None \<Rightarrow> False
      | Some ct \<Rightarrow> (case parts ct of None \<Rightarrow> False | Some ps \<Rightarrow> list_ex spec_part_has_audio ps))"

definition spec_has_inline_audio :: "generate_response \<Rightarrow> bool" where
  "spec_has_inline_audio response =
     (case candidates response of
        None \<Rightarrow> False
      | Some cs \<Rightarrow> list_ex spec_candidate_has_audio cs)"

text \<open>Sessions used in the examples.\<close>

definition app0 :: "(nat, nat \<times> 8 word list) app_state" where
  "app0 = initial_app 24000"

definition first_turn :: chat_state where
  "first_turn = initial_chat \<lparr> input := ''What color is the dragon?'' \<rparr>"

text \<open>The chat while the first reply is awaited, with a second question typed.\<close>

definition second_question :: chat_state where
  "second_question =
     (snd (handleSend_begin (Some ''A dragon slept.'') 1000 first_turn))
       \<lparr> input := ''And then?'' \<rparr>"

text \<open>
  A session in which a synthesis outlives its story: the first image's story is shown and
  read-aloud is clicked (\<open>story_one\<close>); while the speech is awaited the user resets and
  selects a second image, whose story arrives (\<open>story_two\<close>); then the speech for the
  first story arrives and \<open>handleReadAloud\<close> resumes (\<open>stale\<close>).
\<close>

definition story_one :: "(nat, nat \<times> 8 word list) app_state" where
  "story_one = snd (handleImageSelected ai_muse ''data:image/png;base64,AAAA'' ''image/png'' app0)"

definition story_two :: "(nat, nat \<times> 8 word list) app_state" where
  "story_two = snd (handleImageSelected ai_muse ''data:image/png;base64,BBBB'' ''image/png''
                      (handleReset story_one))"

definition stale :: "(nat, nat \<times> 8 word list) app_state" where
  "stale = handleReadAloud_resume (snd (generateSpeech ai_muse env_pcm ''Story of AAAA''))
             story_two"

subsection \<open>Sessions without interleaving\<close>

text \<open>
  The states reached when every handler runs to its end before the next event is
  handled, against a client that answers equal requests equally.
\<close>

inductive_set uninterrupted ::
  "'c ai_client \<Rightarrow> ('a, 'b) audio_env \<Rightarrow> ('a, 'b) app_state set"
  for ai :: "'c ai_client" and env :: "('a, 'b) audio_env" where
    mounted: "initial_app ctx \<in> uninterrupted ai env"
  | selected: "s \<in> uninterrupted ai env
      \<Longrightarrow> snd (handleImageSelected ai base64 ty s) \<in> uninterrupted ai env"
  | read_aloud: "s \<in> uninterrupted ai env
      \<Longrightarrow> snd (handleReadAloud ai env s) \<in> uninterrupted ai env"
  | reset: "s \<in> uninterrupted ai env \<Longrightarrow> handleReset s \<in> uninterrupted ai env"
  | ended: "s \<in> uninterrupted ai env \<Longrightarrow> onended s \<in> uninterrupted ai env"

text \<open>The cached buffer, if there is one, is the synthesis of the story now shown.\<close>

definition buffer_current ::
  "'c ai_client \<Rightarrow> ('a, 'b) audio_env \<Rightarrow> ('a, 'b) app_state \<Rightarrow> bool" where
  "buffer_current ai env s =
     (case audioBuffer s of
        None \<Rightarrow> True
      | Some buffer \<Rightarrow> snd (generateSpeech ai env (story s)) = Inr (Some buffer))"

section \<open>Facts about the helpers\<close>

lemma strip_prefix_append: "strip_prefix p (p @ s) = Some s"
  by (induction p) auto

lemma semicolon_not_word: "\<not> is_word_char (CHR '';'')"
  by (simp add: is_word_char_def)

lemma replace_header_strips:
  assumes "w \<noteq> []" and "\<forall>c \<in> set w. is_word_char c"
  shows "replace_header (''data:image/'' @ w @ '';base64,'' @ payload) = payload"
proof -
  have tw: "takeWhile is_word_char (w @ '';base64,'' @ payload) = w"
    using assms(2) by (simp add: takeWhile_append2 semicolon_not_word)
  have dw: "dropWhile is_word_char (w @ '';base64,'' @ payload) = '';base64,'' @ payload"
    using assms(2) by (simp add: dropWhile_append2 semicolon_not_word)
  have sp: "strip_prefix ''data:image/'' (''data:image/'' @ w @ '';base64,'' @ payload)
              = Some (w @ '';base64,'' @ payload)"
    by (rule strip_prefix_append)
  have sp2: "strip_prefix '';base64,'' ('';base64,'' @ payload) = Some payload"
    by (rule strip_prefix_append)
  show ?thesis
    unfolding replace_header_def sp using tw dw sp2 assms(1) by simp
qed

text \<open>A subtype with a character outside \<open>\w\<close> does not match; the string is sent whole.\<close>

lemma replace_header_svg_kept:
  "replace_header ''data:image/svg+xml;base64,PHN2Zz4='' = ''data:image/svg+xml;base64,PHN2Zz4=''"
  by (simp add: replace_header_def is_word_char_def)

lemma story_fallback_nonempty: "story_fallback \<noteq> []"
  by (simp add: story_fallback_def)

lemma or_else_nonempty: "d \<noteq> [] \<Longrightarrow> or_else v d \<noteq> []"
  by (simp add: or_else_def split: option.splits)

lemma or_else_truthy: "truthy v \<Longrightarrow> v = Some (or_else v d)"
  by (simp add: or_else_def truthy_def split: option.splits)

lemma or_else_falsy: "\<not> truthy v \<Longrightarrow> or_else v d = d"
  by (simp add: or_else_def truthy_def split: option.splits)

section \<open>Properties of the services\<close>

text \<open>
  C2. \<open>sendChatMessage\<close> never throws: whatever the client does, the call returns a value,
  and when the session cannot be created or the send fails, that value is the fixed
  apology.
\<close>

theorem sendChatMessage_never_throws:
  "(\<exists>reply. snd (sendChatMessage ai history newMessage imageContext) = Inr reply)
   \<and> ((\<exists>e. chats_create ai (chat_request history) = Inl e)
        \<or> (\<exists>chat e. chats_create ai (chat_request history) = Inr chat
                   \<and> sendMessage ai chat newMessage = Inl e)
      \<longrightarrow> snd (sendChatMessage ai history newMessage imageContext) = Inr (Some chat_apology))"
  by (auto simp: sendChatMessage_def Let_def split: sum.splits)

theorem sendChatMessage_never_throws_witness:
  "sendMessage ai_down (chat_request []) ''Who is the dragon?'' = Inl (JsError ''Failed to fetch'')
   \<and> snd (sendChatMessage ai_down [] ''Who is the dragon?'' Absent) = Inr (Some chat_apology)"
  using sendChatMessage_never_throws [of ai_down "[]" "''Who is the dragon?''" Absent]
  by (simp add: ai_down_def)

text \<open>
  C4. When the endpoint answers, \<open>generateStoryFromImage\<close> returns a non-empty string: the
  response's text if that is a non-empty string, the fixed fallback if the text is
  \<open>undefined\<close> or empty. When the endpoint fails nothing is returned; the error is rethrown.
\<close>

theorem generateStoryFromImage_text_or_fallback:
  "(case generateContent ai (story_request base64Image mimeType) of
      Inl e \<Rightarrow> snd (generateStoryFromImage ai base64Image mimeType) = Inl e
    | Inr response \<Rightarrow>
        (\<exists>s. snd (generateStoryFromImage ai base64Image mimeType) = Inr s \<and> s \<noteq> []
           \<and> (if truthy (resp_text response) then resp_text response = Some s
               else s = story_fallback)))"
  by (auto simp: generateStoryFromImage_def Let_def or_else_nonempty story_fallback_nonempty
                 or_else_falsy
           dest: or_else_truthy split: sum.splits)

theorem generateStoryFromImage_text_or_fallback_witness:
  "snd (generateStoryFromImage ai_silent ''AAAA'' ''image/png'') = Inr story_fallback
   \<and> snd (generateStoryFromImage ai_muse ''AAAA'' ''image/png'') = Inr ''Story of AAAA''
   \<and> snd (generateStoryFromImage ai_down ''AAAA'' ''image/png'') = Inl (JsError ''Failed to fetch'')"
  using generateStoryFromImage_text_or_fallback [of ai_silent "''AAAA''" "''image/png''"]
    generateStoryFromImage_text_or_fallback [of ai_muse "''AAAA''" "''image/png''"]
    generateStoryFromImage_text_or_fallback [of ai_down "''AAAA''" "''image/png''"]
  by (simp add: ai_silent_def ai_muse_def ai_down_def truthy_def story_request_def
                replace_header_def)

text \<open>
  C5. An image string that starts with a data-URI header \<open>data:image/<subtype>;base64,\<close>,
  the subtype made of word characters (as in \<open>png\<close>, \<open>jpeg\<close>, \<open>webp\<close>), is sent without
  the header: the one request made carries the bare payload as its \<open>data\<close>.
\<close>

theorem generateStoryFromImage_strips_header:
  assumes "subtype \<noteq> []" and "list_all is_word_char subtype"
  shows "client_calls (fst (generateStoryFromImage ai
             (''data:image/'' @ subtype @ '';base64,'' @ payload) mimeType))
         = [GenerateContent \<lparr> model = ''gemini-3-pro-preview'',
                              contents = Content [InlineData mimeType payload, Text story_prompt],
                              config = None \<rparr>]"
  using replace_header_strips [of subtype payload] assms
  by (simp add: generateStoryFromImage_def list_all_iff story_request_def client_calls_def Let_def
           split: sum.splits)

theorem generateStoryFromImage_strips_header_witness:
  "''png'' \<noteq> [] \<and> list_all is_word_char ''png''
   \<and> client_calls (fst (generateStoryFromImage ai_down
          ''data:image/png;base64,iVBORw0KGgo='' ''image/png''))
      = [GenerateContent \<lparr> model = ''gemini-3-pro-preview'',
                           contents = Content [InlineData ''image/png'' ''iVBORw0KGgo='',
                                               Text story_prompt],
                           config = None \<rparr>]"
proof -
  have h1: "''png'' \<noteq> []" by simp
  have h2: "list_all is_word_char ''png''" by (simp add: is_word_char_def)
  show ?thesis
    using h1 h2
      generateStoryFromImage_strips_header [OF h1 h2, of ai_down "''iVBORw0KGgo=''" "''image/png''"]
    by simp
qed

text \<open>
  C10. The third argument of \<open>sendChatMessage\<close> has no influence: two runs that differ
  only in it make the same calls, write the same console lines and return the same value.
\<close>

theorem sendChatMessage_ignores_imageContext:
  "sendChatMessage ai history newMessage imageContext
     = sendChatMessage ai history newMessage imageContext'"
  by (simp add: sendChatMessage_def)

text \<open>
  A payload found along the path of \<open>base64Audio_of\<close> is a payload of the response, so a
  response without any inline audio is one where the path finds nothing.
\<close>

lemma base64Audio_of_present:
  "truthy (base64Audio_of response) \<Longrightarrow> spec_has_inline_audio response"
  by (auto simp: base64Audio_of_def first_of_def spec_has_inline_audio_def
                 spec_candidate_has_audio_def spec_part_has_audio_def truthy_def
           split: option.splits list.splits)

text \<open>
  C3. When the speech endpoint answers and the response has no inline audio payload at
  \<open>candidates[0].content.parts[0].inlineData.data\<close> (any link of the chain missing, or the
  data empty), \<open>generateSpeech\<close> warns and returns \<open>null\<close>; it does not throw, and it
  never touches the audio platform.
\<close>

theorem generateSpeech_null_without_audio:
  assumes "generateContent ai (speech_request text) = Inr response"
    and "\<not> truthy (base64Audio_of response)"
  shows "generateSpeech ai env text
           = ([GenerateContent (speech_request text), ConsoleWarn ''No audio data received''],
              Inr None)"
  using assms
  by (simp add: generateSpeech_def Let_def truthy_def no_audio_data_def split: option.splits)

theorem generateSpeech_null_without_audio_witness:
  "generateContent ai_silent (speech_request ''A quiet morning.'')
     = Inr \<lparr> candidates = Some [], resp_text = None \<rparr>
   \<and> \<not> truthy (base64Audio_of \<lparr> candidates = Some [], resp_text = None \<rparr>)
   \<and> snd (generateSpeech ai_silent env_pcm ''A quiet morning.'') = Inr None"
proof -
  have h1: "generateContent ai_silent (speech_request ''A quiet morning.'')
              = Inr \<lparr> candidates = Some [], resp_text = None \<rparr>"
    by (simp add: ai_silent_def)
  have h2: "\<not> truthy (base64Audio_of \<lparr> candidates = Some [], resp_text = None \<rparr>)"
    by (simp add: base64Audio_of_def first_of_def truthy_def)
  show ?thesis
    using h1 h2 generateSpeech_null_without_audio [OF h1 h2, of env_pcm] by simp
qed

text \<open>
  C9. When the speech endpoint returns a non-empty payload that \<open>decodeBase64\<close> accepts,
  \<open>generateSpeech\<close> constructs one audio context, with \<open>sampleRate\<close> 24000, and its
  result is what \<open>decodeAudioData\<close> makes of the decoded bytes in that context: the buffer,
  or the decoder's error rethrown.
\<close>

theorem generateSpeech_decodes_at_24000:
  assumes "generateContent ai (speech_request text) = Inr response"
    and "base64Audio_of response = Some payload" and "payload \<noteq> []"
    and "newAudioContext env 24000 = Inr audioContext"
    and "decodeBase64 env payload = Inr audioBytes"
  shows "generateSpeech ai env text =
           (case decodeAudioData env audioBytes audioContext of
              Inl e \<Rightarrow> ([GenerateContent (speech_request text), NewAudioContext 24000,
                         ConsoleError ''Error generating speech:'' e], Inl e)
            | Inr buffer \<Rightarrow> ([GenerateContent (speech_request text), NewAudioContext 24000],
                             Inr (Some buffer)))"
  using assms
  by (simp add: generateSpeech_def decode_audio_def Let_def split: sum.splits)

theorem generateSpeech_decodes_at_24000_witness:
  "generateContent ai_muse (speech_request ''Hi'') = Inr (speech_response ''Hi'')
   \<and> base64Audio_of (speech_response ''Hi'') = Some ''Hi'' \<and> ''Hi'' \<noteq> []
   \<and> newAudioContext env_pcm 24000 = Inr 24000
   \<and> decodeBase64 env_pcm ''Hi'' = Inr [72, 105]
   \<and> snd (generateSpeech ai_muse env_pcm ''Hi'') = Inr (Some (24000, [72, 105]))"
proof -
  have h1: "generateContent ai_muse (speech_request ''Hi'') = Inr (speech_response ''Hi'')"
    by (simp add: ai_muse_def speech_request_def)
  have h2: "base64Audio_of (speech_response ''Hi'') = Some ''Hi''"
    by (simp add: base64Audio_of_def speech_response_def first_of_def)
  have h3: "''Hi'' \<noteq> []" by simp
  have h4: "newAudioContext env_pcm 24000 = Inr 24000" by (simp add: env_pcm_def)
  have h5: "decodeBase64 env_pcm ''Hi'' = Inr [72, 105]" by (simp add: env_pcm_def)
  have h6: "decodeAudioData env_pcm [72, 105] 24000 = Inr (24000, [72, 105])"
    by (simp add: env_pcm_def)
  show ?thesis
    using h1 h2 h3 h4 h5 generateSpeech_decodes_at_24000 [OF h1 h2 h3 h4 h5]
    by (simp add: h6)
qed

section \<open>Properties of the session\<close>



lemma handleImageSelected_begin_generating:
  "base64 \<noteq> [] \<Longrightarrow> phase (handleImageSelected_begin base64 ty s) = StoryGenerating"
  by (simp add: phase_def handleImageSelected_begin_def truthy_def)

subsection \<open>The cached audio buffer\<close>

lemma handleReset_clears: "audioBuffer (handleReset s) = None"
  by (simp add: handleReset_def)

lemma handleImageSelected_begin_clears:
  "audioBuffer (handleImageSelected_begin base64 ty s) = None"
  by (simp add: handleImageSelected_begin_def)

lemma handleImageSelected_clears: "audioBuffer (snd (handleImageSelected ai base64 ty s)) = None"
  by (simp add: handleImageSelected_def handleImageSelected_begin_def
                handleImageSelected_resume_def split: prod.splits sum.splits)

lemma handleReadAloud_keeps_current:
  assumes "buffer_current ai env s"
  shows "buffer_current ai env (snd (handleReadAloud ai env s))"
proof (cases "handleReadAloud_begin s")
  case (Returned s')
  then have "audioBuffer s' = audioBuffer s \<and> story s' = story s"
    by (auto simp: handleReadAloud_begin_def stopAudio_def playBuffer_def
             split: if_splits option.splits)
  with assms Returned show ?thesis
    by (simp add: handleReadAloud_def buffer_current_def split: option.splits)
next
  case (AwaitSpeech spoken)
  then have sp: "spoken = story s"
    by (auto simp: handleReadAloud_begin_def split: if_splits option.splits)
  obtain effects outcome where g: "generateSpeech ai env (story s) = (effects, outcome)"
    by (cases "generateSpeech ai env (story s)")
  show ?thesis
  proof (cases outcome)
    case (Inl e)
    with assms AwaitSpeech sp g show ?thesis
      by (simp add: handleReadAloud_def handleReadAloud_resume_def)
  next
    case (Inr r)
    show ?thesis
    proof (cases r)
      case None
      with assms AwaitSpeech sp g Inr show ?thesis
        by (simp add: handleReadAloud_def handleReadAloud_resume_def)
    next
      case (Some buffer)
      with AwaitSpeech sp g Inr show ?thesis
        by (simp add: handleReadAloud_def handleReadAloud_resume_def buffer_current_def
                      playBuffer_def split: option.splits)
    qed
  qed
qed

text \<open>
  As long as no handler is interleaved with another, a cached buffer is the synthesis of
  the story on display.
\<close>

lemma uninterrupted_buffer_current:
  "s \<in> uninterrupted ai env \<Longrightarrow> buffer_current ai env s"
proof (induction rule: uninterrupted.induct)
  case (mounted ctx)
  show ?case by (simp add: buffer_current_def initial_app_def)
next
  case (selected s base64 ty)
  show ?case
    by (simp add: buffer_current_def handleImageSelected_def handleImageSelected_begin_def
                  handleImageSelected_resume_def split: prod.splits sum.splits)
next
  case (read_aloud s)
  then show ?case by (simp add: handleReadAloud_keeps_current)
next
  case (reset s)
  show ?case by (simp add: buffer_current_def handleReset_def)
next
  case (ended s)
  then show ?case by (simp add: buffer_current_def onended_def split: option.splits)
qed

lemma story_one_eq:
  "story_one = \<lparr> app_image = Some ''data:image/png;base64,AAAA'', app_mimeType = ''image/png'',
       story = ''Story of AAAA'', isGenerating = False,
       audioBuffer = None, isPlaying = False,
       audioContextRef = Some 24000, sourceNodeRef = None \<rparr>"
  by (simp add: story_one_def handleImageSelected_def generateStoryFromImage_def ai_muse_def
        story_request_def replace_header_def is_word_char_def or_else_def
        handleImageSelected_begin_def handleImageSelected_resume_def app0_def initial_app_def
        Let_def)

lemma story_two_eq:
  "story_two = \<lparr> app_image = Some ''data:image/png;base64,BBBB'', app_mimeType = ''image/png'',
       story = ''Story of BBBB'', isGenerating = False,
       audioBuffer = None, isPlaying = False,
       audioContextRef = Some 24000, sourceNodeRef = None \<rparr>"
  by (simp add: story_two_def story_one_eq handleReset_def stopAudio_def
        handleImageSelected_def generateStoryFromImage_def ai_muse_def
        story_request_def replace_header_def is_word_char_def or_else_def
        handleImageSelected_begin_def handleImageSelected_resume_def
        Let_def)

lemma speech_of:
  "snd (generateSpeech ai_muse env_pcm spoken) =
     (if spoken = [] then Inr None
      else Inr (Some (24000, map (\<lambda>c. of_nat (of_char c)) spoken)))"
  by (simp add: generateSpeech_def ai_muse_def speech_request_def speech_response_def
        base64Audio_of_def first_of_def decode_audio_def env_pcm_def no_audio_data_def Let_def)

text \<open>
  C8. The invariant "a cached buffer was synthesised for the story now shown" is broken by
  a synthesis that completes after its story is gone. In \<open>story_one\<close> the read-aloud
  button is enabled and a click awaits \<open>generateSpeech\<close> for the first story; reset and
  the next image each clear the buffer; when the awaited speech arrives, the resumed
  handler caches and plays it, so that the session shows the second story with the first
  story's audio in the cache.
\<close>

theorem stale_audio_after_reset:
  "readAloud_enabled story_one
   \<and> handleReadAloud_begin story_one = AwaitSpeech ''Story of AAAA''
   \<and> phase story_one = StoryReady
   \<and> phase (handleReset story_one) = Idle
   \<and> audioBuffer (handleReset story_one) = None
   \<and> audioBuffer story_two = None
   \<and> story stale = ''Story of BBBB''
   \<and> Inr (audioBuffer stale) = snd (generateSpeech ai_muse env_pcm ''Story of AAAA'')
   \<and> audioBuffer stale \<noteq> None
   \<and> Inr (audioBuffer stale) \<noteq> snd (generateSpeech ai_muse env_pcm (story stale))"
  by (simp add: stale_def story_two_eq story_one_eq speech_of readAloud_enabled_def
        handleReadAloud_begin_def handleReadAloud_resume_def playBuffer_def phase_def
        handleReset_def stopAudio_def truthy_def)

section \<open>Properties of the chat\<close>

text \<open>
  C1, as the code has it. When a send goes ahead (non-blank input, no send in flight), the
  session is created with the transcript as rendered, and the message sent is the
  grounding clause around the story followed by the input exactly when the transcript
  holds one entry (the greeting, before any user turn) and the story is a non-empty
  string; in every other case the input is sent unmodified.
\<close>

theorem handleSend_transmits:
  assumes "trim (input s) \<noteq> []" and "\<not> isLoading s"
  shows "client_calls (fst (handleSend ai initialContext now now' s)) =
     (case chats_create ai (chat_request (apiHistory_of (messages s))) of
        Inl e \<Rightarrow> [ChatsCreate (chat_request (apiHistory_of (messages s)))]
      | Inr chat \<Rightarrow>
          [ChatsCreate (chat_request (apiHistory_of (messages s))),
           SendMessage chat
             (case initialContext of
                None \<Rightarrow> input s
              | Some S \<Rightarrow>
                  if length (messages s) = 1 \<and> S \<noteq> []
                  then ''Context: The story so far is: '' @ [CHR 0x22] @ S @ [CHR 0x22]
                         @ ''. '' @ [CHR 0x0A, CHR 0x0A] @ '' User Question: '' @ input s
                  else input s)])"
  using assms
  by (auto simp: handleSend_def handleSend_begin_def sendChatMessage_def client_calls_def
                 finalInput_of_def grounded_def truthy_def Let_def
           split: sum.splits option.splits)

theorem handleSend_transmits_witness:
  "trim (input first_turn) \<noteq> [] \<and> \<not> isLoading first_turn
   \<and> client_calls (fst (handleSend ai_muse (Some ''A dragon slept.'') 1000 1001 first_turn))
     = [ChatsCreate (chat_request [\<lparr> h_role = Model, h_parts = [Some greeting] \<rparr>]),
        SendMessage (chat_request [\<lparr> h_role = Model, h_parts = [Some greeting] \<rparr>])
          (''Context: The story so far is: '' @ [CHR 0x22] @ ''A dragon slept.'' @ [CHR 0x22]
             @ ''. '' @ [CHR 0x0A, CHR 0x0A] @ '' User Question: What color is the dragon?'')]"
proof -
  have h1: "trim (input first_turn) \<noteq> []"
    by (simp add: first_turn_def trim_def is_white_space_def)
  have h2: "\<not> isLoading first_turn"
    by (simp add: first_turn_def initial_chat_def)
  show ?thesis
    using h1 h2 handleSend_transmits [OF h1 h2, of ai_muse "Some ''A dragon slept.''" 1000 1001]
    by (simp add: first_turn_def initial_chat_def ai_muse_def apiHistory_of_def)
qed

text \<open>
  C1, as stated, fails. On the first turn the message is prefixed although the history
  handed to the client is not empty: it holds the greeting. And with a transcript that is
  empty, the same story and question go out without the prefix.
\<close>

theorem handleSend_prefix_history_not_empty:
  "client_calls (fst (handleSend ai_muse (Some ''A dragon slept.'') 1000 1001 first_turn))
     = [ChatsCreate (chat_request [\<lparr> h_role = Model, h_parts = [Some greeting] \<rparr>]),
        SendMessage (chat_request [\<lparr> h_role = Model, h_parts = [Some greeting] \<rparr>])
          (''Context: The story so far is: '' @ [CHR 0x22] @ ''A dragon slept.'' @ [CHR 0x22]
             @ ''. '' @ [CHR 0x0A, CHR 0x0A] @ '' User Question: What color is the dragon?'')]
   \<and> chat_history (chat_request [\<lparr> h_role = Model, h_parts = [Some greeting] \<rparr>]) \<noteq> []
   \<and> client_calls (fst (handleSend ai_muse (Some ''A dragon slept.'') 1000 1001
         (first_turn \<lparr> messages := [] \<rparr>)))
     = [ChatsCreate (chat_request []),
        SendMessage (chat_request []) ''What color is the dragon?'']"
  by (simp add: handleSend_def handleSend_begin_def sendChatMessage_def client_calls_def
                finalInput_of_def grounded_def truthy_def Let_def first_turn_def
                initial_chat_def ai_muse_def apiHistory_of_def trim_def is_white_space_def
                chat_request_def)

text \<open>
  C6, as the code has it. When the input is not blank and no send is in flight, one
  \<open>handleSend\<close> leaves the transcript with its prior entries unchanged and two more after
  them: the user message with the input, then the model message with what
  \<open>sendChatMessage\<close> returned. While a send is in flight, \<open>handleSend\<close> returns at its
  guard whatever the input: it makes no call and leaves the whole state, the transcript
  included, as it was.
\<close>

theorem handleSend_appends_two:
  "(trim (input s) \<noteq> [] \<and> \<not> isLoading s \<longrightarrow>
      (\<exists>reply.
           snd (sendChatMessage ai (apiHistory_of (messages s))
                  (finalInput_of (messages s) initialContext (input s)) Absent) = Inr reply
         \<and> messages (snd (handleSend ai initialContext now now' s))
             = messages s
               @ [\<lparr> msg_id = toString now, msg_role = User, msg_text = Some (input s) \<rparr>,
                  \<lparr> msg_id = toString (now' + 1), msg_role = Model, msg_text = reply \<rparr>]
         \<and> length (messages (snd (handleSend ai initialContext now now' s)))
             = length (messages s) + 2))
   \<and> (isLoading s \<longrightarrow> handleSend ai initialContext now now' s = ([], s))"
proof (intro conjI impI)
  assume "trim (input s) \<noteq> [] \<and> \<not> isLoading s"
  then show "\<exists>reply.
           snd (sendChatMessage ai (apiHistory_of (messages s))
                  (finalInput_of (messages s) initialContext (input s)) Absent) = Inr reply
         \<and> messages (snd (handleSend ai initialContext now now' s))
             = messages s
               @ [\<lparr> msg_id = toString now, msg_role = User, msg_text = Some (input s) \<rparr>,
                  \<lparr> msg_id = toString (now' + 1), msg_role = Model, msg_text = reply \<rparr>]
         \<and> length (messages (snd (handleSend ai initialContext now now' s)))
             = length (messages s) + 2"
    by (auto simp: handleSend_def handleSend_begin_def handleSend_resume_def
                   sendChatMessage_def Let_def
             split: sum.splits)
next
  assume "isLoading s"
  then show "handleSend ai initialContext now now' s = ([], s)"
    by (simp add: handleSend_def handleSend_begin_def)
qed

theorem handleSend_appends_two_witness:
  "trim (input first_turn) \<noteq> [] \<and> \<not> isLoading first_turn
   \<and> messages (snd (handleSend ai_muse (Some ''A dragon slept.'') 1000 1001 first_turn))
     = [\<lparr> msg_id = ''1'', msg_role = Model, msg_text = Some greeting \<rparr>,
        \<lparr> msg_id = toString 1000, msg_role = User,
          msg_text = Some ''What color is the dragon?'' \<rparr>,
        \<lparr> msg_id = toString (1001 + 1), msg_role = Model, msg_text = Some ''It is green.'' \<rparr>]
   \<and> isLoading second_question
   \<and> handleSend ai_muse (Some ''A dragon slept.'') 2000 2001 second_question
     = ([], second_question)"
proof -
  have h1: "trim (input first_turn) \<noteq> []"
    by (simp add: first_turn_def trim_def is_white_space_def)
  have h2: "\<not> isLoading first_turn"
    by (simp add: first_turn_def initial_chat_def)
  have h3: "isLoading second_question"
    by (simp add: second_question_def first_turn_def initial_chat_def handleSend_begin_def
                  trim_def is_white_space_def Let_def)
  have reply: "snd (sendChatMessage ai_muse (apiHistory_of (messages first_turn))
                  (finalInput_of (messages first_turn) (Some ''A dragon slept.'')
                     (input first_turn)) Absent) = Inr (Some ''It is green.'')"
    by (simp add: sendChatMessage_def ai_muse_def Let_def)
  from handleSend_appends_two [of first_turn ai_muse "Some ''A dragon slept.''" 1000 1001] h1 h2
  obtain r where
    r1: "snd (sendChatMessage ai_muse (apiHistory_of (messages first_turn))
                (finalInput_of (messages first_turn) (Some ''A dragon slept.'')
                   (input first_turn)) Absent) = Inr r"
    and r2: "messages (snd (handleSend ai_muse (Some ''A dragon slept.'') 1000 1001 first_turn))
               = messages first_turn
                 @ [\<lparr> msg_id = toString 1000, msg_role = User,
                      msg_text = Some (input first_turn) \<rparr>,
                    \<lparr> msg_id = toString (1001 + 1), msg_role = Model, msg_text = r \<rparr>]"
    by blast
  from r1 reply have r3: "r = Some ''It is green.''" by simp
  from handleSend_appends_two [of second_question ai_muse "Some ''A dragon slept.''" 2000 2001] h3
  have r4: "handleSend ai_muse (Some ''A dragon slept.'') 2000 2001 second_question
              = ([], second_question)"
    by blast
  from h1 h2 r2 r3 have
    "trim (input first_turn) \<noteq> [] \<and> \<not> isLoading first_turn
     \<and> messages (snd (handleSend ai_muse (Some ''A dragon slept.'') 1000 1001 first_turn))
       = [\<lparr> msg_id = ''1'', msg_role = Model, msg_text = Some greeting \<rparr>,
          \<lparr> msg_id = toString 1000, msg_role = User,
            msg_text = Some ''What color is the dragon?'' \<rparr>,
          \<lparr> msg_id = toString (1001 + 1), msg_role = Model,
            msg_text = Some ''It is green.'' \<rparr>]"
    by (simp add: first_turn_def initial_chat_def)
  with h3 r4 show ?thesis by blast
qed

text \<open>
  C6, as stated, fails while a send is in flight: with a non-blank input typed during the
  wait for the first reply, \<open>handleSend\<close> returns at its guard and the transcript keeps
  its two entries.
\<close>

theorem handleSend_ignored_while_loading:
  "trim (input second_question) \<noteq> [] \<and> isLoading second_question
   \<and> length (messages second_question) = 2
   \<and> length (messages (snd (handleSend ai_muse (Some ''A dragon slept.'') 2000 2001
                               second_question))) = 2"
  by (simp add: second_question_def first_turn_def initial_chat_def handleSend_def
                handleSend_begin_def trim_def is_white_space_def Let_def)

end
